theory Spec2Isabelle
  imports Main "HOL-Library.Word"
begin

section \<open>The Crosspay server SDK (\<^verbatim>\<open>src/sdk.go\<close>)\<close>

text \<open>
  The SDK has two layers.  \<^verbatim>\<open>ConstructWebhookEvent\<close> authenticates an inbound webhook:
  it checks the freshness of the delivery timestamp, builds the signed message from the raw
  bytes, decodes the signature, loads the public key, verifies the signature and only then
  decodes the payload.  The other methods are request/response calls over a generated HTTP
  client, joined by linear scans.

  Go strings and byte slices are lists of bytes (\<open>string\<close>); the conversion
  \<^verbatim>\<open>[]byte(s)\<close> is the identity.  A Go result \<^verbatim>\<open>(v, err)\<close> is a sum: \<open>Inl\<close> the error,
  \<open>Inr\<close> the value.  A pointer result that may be \<^verbatim>\<open>nil\<close> is an \<open>option\<close>.
\<close>

type_synonym bytes = string

subsection \<open>Errors\<close>

text \<open>
  The Go \<^verbatim>\<open>error\<close> values the SDK returns, by the way they are built: an error of a callee
  returned unchanged (\<^verbatim>\<open>return nil, err\<close>), \<^verbatim>\<open>errors.New(msg)\<close>,
  \<^verbatim>\<open>fmt.Errorf("<prefix>: %w", err)\<close> and \<^verbatim>\<open>fmt.Errorf("unexpected status code: %d", n)\<close>.
  An error of a library call is represented by its message.
\<close>

datatype error =
    Passed string
  | errors_New string
  | Errorf_w string string
  | Errorf_d string int

text \<open>The error kinds of the specification (its section 7).\<close>

datatype error_kind =
    TimestampParseError
  | TimestampExpiredError
  | SignatureDecodeError
  | PublicKeyParseError
  | UnsupportedKeyTypeError
  | SignatureVerificationError
  | PayloadDecodeError

text \<open>
  The kind of an error of \<^verbatim>\<open>ConstructWebhookEvent\<close>, read off the message the code gives it
  (the trigger column of the specification's table, against the code's return sites).
\<close>

fun kind_of :: "error \<Rightarrow> error_kind option" where
  "kind_of (Errorf_w prefix err) =
     (if prefix = ''invalid timestamp header'' then Some TimestampParseError
      else if prefix = ''failed to decode signature'' then Some SignatureDecodeError
      else if prefix = ''failed to parse public key'' then Some PublicKeyParseError
      else if prefix = ''failed to parse webhook payload'' then Some PayloadDecodeError
      else None)"
| "kind_of (errors_New msg) =
     (if msg = ''timestamp is outside the 5-minute window'' then Some TimestampExpiredError
      else if msg = ''failed to parse PEM block containing the public key''
        then Some PublicKeyParseError
      else if msg = ''public key is not RSA'' then Some UnsupportedKeyTypeError
      else if msg = ''signature verification failed'' then Some SignatureVerificationError
      else None)"
| "kind_of (Passed err) = None"
| "kind_of (Errorf_d prefix n) = None"

subsection \<open>Time\<close>

text \<open>
  A \<^verbatim>\<open>time.Time\<close> is an instant of the wall clock, here in nanoseconds since the Unix epoch.
  A \<^verbatim>\<open>time.Duration\<close> is an \<^verbatim>\<open>int64\<close> count of nanoseconds: arithmetic on it wraps around
  and comparisons are signed.
\<close>

type_synonym Time = int
type_synonym Duration = "64 word"

definition Minute :: Duration where
  "Minute = 60000000000"

definition minDuration :: Duration where
  "minDuration = word_of_int (- (2 ^ 63))"

definition maxDuration :: Duration where
  "maxDuration = word_of_int (2 ^ 63 - 1)"

text \<open>
  \<^verbatim>\<open>t.Sub(u)\<close> of the Go library, for two readings of the wall clock: the difference
  \<open>t - u\<close>, and the minimum or maximum duration when the difference does not fit in a
  \<^verbatim>\<open>Duration\<close>.
\<close>

definition Time_Sub :: "Time \<Rightarrow> Time \<Rightarrow> Duration" where
  "Time_Sub t u =
     (let d = t - u in
      if - (2 ^ 63) \<le> d \<and> d < 2 ^ 63 then word_of_int d
      else if t < u then minDuration
      else maxDuration)"

text \<open>
  \<^verbatim>\<open>time.Since(t)\<close> is \<^verbatim>\<open>time.Now().Sub(t)\<close> for a \<open>t\<close> without a monotonic reading, which
  a parsed time is.  The reading of the clock is the argument \<open>now\<close>.
\<close>

definition time_Since :: "Time \<Rightarrow> Time \<Rightarrow> Duration" where
  "time_Since now t = Time_Sub now t"

subsection \<open>The library calls of the webhook check\<close>

text \<open>
  \<^verbatim>\<open>x509.ParsePKIXPublicKey\<close> returns a key of one of several algorithms; the code asks
  for an \<^verbatim>\<open>*rsa.PublicKey\<close> by a type assertion.  Keys of other algorithms carry their
  material as bytes.
\<close>

record rsa_PublicKey =
  N :: int
  E :: int

datatype PublicKey =
    RSA rsa_PublicKey
  | DSA bytes
  | ECDSA bytes
  | Ed25519 bytes
  | ECDH bytes

datatype crypto_Hash = SHA1 | SHA256 | SHA512

record pem_Block =
  Type :: string
  Bytes :: bytes

text \<open>
  The functions of the Go standard library that \<^verbatim>\<open>ConstructWebhookEvent\<close> calls are
  parameters of the model.  \<open>'ev\<close> is the event type
  \<^verbatim>\<open>GetCustomerExtendedInfoByEmailRow\<close>, which the generated package declares.
  \<^item> \<open>time_Parse\<close>: \<^verbatim>\<open>time.Parse(time.RFC3339, _)\<close>;
  \<^item> \<open>base64_DecodeString\<close>: \<^verbatim>\<open>base64.StdEncoding.DecodeString\<close>;
  \<^item> \<open>pem_Decode\<close>: the block of \<^verbatim>\<open>pem.Decode\<close>, \<open>None\<close> for \<^verbatim>\<open>nil\<close>;
  \<^item> \<open>x509_ParsePKIXPublicKey\<close>, \<open>sha256_Sum256\<close>;
  \<^item> \<open>rsa_VerifyPKCS1v15\<close>: \<open>None\<close> for a \<^verbatim>\<open>nil\<close> error;
  \<^item> \<open>json_Unmarshal\<close>: \<^verbatim>\<open>json.Unmarshal\<close> into a fresh event.
\<close>

record 'ev stdlib =
  time_Parse :: "string \<Rightarrow> string + Time"
  base64_DecodeString :: "string \<Rightarrow> string + bytes"
  pem_Decode :: "bytes \<Rightarrow> pem_Block option"
  x509_ParsePKIXPublicKey :: "bytes \<Rightarrow> string + PublicKey"
  sha256_Sum256 :: "bytes \<Rightarrow> bytes"
  rsa_VerifyPKCS1v15 :: "rsa_PublicKey \<Rightarrow> crypto_Hash \<Rightarrow> bytes \<Rightarrow> bytes \<Rightarrow> string option"
  json_Unmarshal :: "bytes \<Rightarrow> string + 'ev"

subsection \<open>\<^verbatim>\<open>ConstructWebhookEvent\<close>\<close>

text \<open>
  Lines 274 to 277: the time since the timestamp, negated when it is negative.  The
  negation is that of \<^verbatim>\<open>int64\<close>.
\<close>

definition abs_timeDiff :: "Time \<Rightarrow> Time \<Rightarrow> Duration" where
  "abs_timeDiff now timestampDate =
     (let timeDiff = time_Since now timestampDate in
      if timeDiff <s 0 then - timeDiff else timeDiff)"

text \<open>Lines 283 and 284: the two \<^verbatim>\<open>append\<close>s that build the data to verify.\<close>

definition data_to_verify :: "string \<Rightarrow> bytes \<Rightarrow> bytes" where
  "data_to_verify timestampHeader rawPayload =
     (let data = timestampHeader @ [CHR ''.''] in data @ rawPayload)"

definition ConstructWebhookEvent ::
  "'ev stdlib \<Rightarrow> Time \<Rightarrow> string \<Rightarrow> bytes \<Rightarrow> string \<Rightarrow> string \<Rightarrow> error + 'ev" where
  "ConstructWebhookEvent L now webhookPublicKey rawPayload signatureHeader timestampHeader =
     (case time_Parse L timestampHeader of
        Inl err \<Rightarrow> Inl (Errorf_w ''invalid timestamp header'' err)
      | Inr timestampDate \<Rightarrow>
          if 5 * Minute <s abs_timeDiff now timestampDate
          then Inl (errors_New ''timestamp is outside the 5-minute window'')
          else
            let data = data_to_verify timestampHeader rawPayload in
            (case base64_DecodeString L signatureHeader of
               Inl err \<Rightarrow> Inl (Errorf_w ''failed to decode signature'' err)
             | Inr signature \<Rightarrow>
                 (case pem_Decode L webhookPublicKey of
                    None \<Rightarrow>
                      Inl (errors_New ''failed to parse PEM block containing the public key'')
                  | Some block \<Rightarrow>
                      (case x509_ParsePKIXPublicKey L (Bytes block) of
                         Inl err \<Rightarrow> Inl (Errorf_w ''failed to parse public key'' err)
                       | Inr pub \<Rightarrow>
                           (case pub of
                              RSA rsaPub \<Rightarrow>
                                let hash = sha256_Sum256 L data in
                                (case rsa_VerifyPKCS1v15 L rsaPub SHA256 hash signature of
                                   Some err \<Rightarrow> Inl (errors_New ''signature verification failed'')
                                 | None \<Rightarrow>
                                     (case json_Unmarshal L rawPayload of
                                        Inl err \<Rightarrow>
                                          Inl (Errorf_w ''failed to parse webhook payload'' err)
                                      | Inr event \<Rightarrow> Inr event))
                            | _ \<Rightarrow> Inl (errors_New ''public key is not RSA''))))))"

text \<open>
  What the claims about \<^verbatim>\<open>ConstructWebhookEvent\<close> call the timestamp check and the
  signature check, as the code makes them: the timestamp parses and its distance from the
  clock is not above five minutes; the signature header decodes, the key is loaded and is
  an RSA key, and the signature verifies over the digest of the signed message.
\<close>

definition timestamp_ok :: "'ev stdlib \<Rightarrow> Time \<Rightarrow> string \<Rightarrow> bool" where
  "timestamp_ok L now timestampHeader =
     (case time_Parse L timestampHeader of
        Inl err \<Rightarrow> False
      | Inr timestampDate \<Rightarrow> \<not> 5 * Minute <s abs_timeDiff now timestampDate)"

definition signature_ok :: "'ev stdlib \<Rightarrow> string \<Rightarrow> bytes \<Rightarrow> string \<Rightarrow> string \<Rightarrow> bool" where
  "signature_ok L webhookPublicKey rawPayload signatureHeader timestampHeader =
     (case base64_DecodeString L signatureHeader of
        Inl err \<Rightarrow> False
      | Inr signature \<Rightarrow>
          (case pem_Decode L webhookPublicKey of
             None \<Rightarrow> False
           | Some block \<Rightarrow>
               (case x509_ParsePKIXPublicKey L (Bytes block) of
                  Inr (RSA rsaPub) \<Rightarrow>
                    rsa_VerifyPKCS1v15 L rsaPub SHA256
                      (sha256_Sum256 L (timestampHeader @ ''.'' @ rawPayload)) signature = None
                | _ \<Rightarrow> False)))"

subsection \<open>The request/response layer\<close>

text \<open>
  A Go slice is \<^verbatim>\<open>nil\<close> or a sequence of elements (possibly empty); \<^verbatim>\<open>range\<close> over a
  \<^verbatim>\<open>nil\<close> slice runs no iteration.
\<close>

datatype 'a slice = nil_slice | Slice "'a list"

fun elems :: "'a slice \<Rightarrow> 'a list" where
  "elems nil_slice = []"
| "elems (Slice xs) = xs"

text \<open>
  An \<^verbatim>\<open>*http.Response\<close>, as far as the code reads it: the status code, and what
  \<^verbatim>\<open>io.ReadAll\<close> gives for the body.
\<close>

record http_Response =
  StatusCode :: int
  Body :: "string + bytes"

definition http_StatusOK :: int where
  "http_StatusOK = 200"

text \<open>
  The response envelopes (\<^verbatim>\<open>TenantListProductsResponseBody\<close> and the like) and the
  entities are declared by the generated package.  The model has the fields the code
  reads: \<^verbatim>\<open>Data\<close> and \<^verbatim>\<open>Error\<close>, both pointers, and the identifiers of the entities, of a
  type \<open>'id\<close> compared with \<^verbatim>\<open>==\<close>.
\<close>

record 'd ResponseBody =
  Data :: "'d option"
  Error :: "string option"

record 'id StorableSubscription =
  ProductId :: 'id

record 'id TenantProduct =
  ProductId :: 'id
  EntitlementId :: 'id

record 'id TenantEntitlement =
  Id' :: 'id

text \<open>
  The calls of the generated client and \<^verbatim>\<open>json.Unmarshal\<close> at the three envelope types
  are parameters: a call gives a transport error or a response, decoding gives an error or
  an envelope.  Each method below makes each request at most once.
\<close>

record 'id client =
  GetTenantProducts :: "string + http_Response"
  GetTenantEntitlementsByEnvironment :: "string \<Rightarrow> string + http_Response"
  PostTenantSubscriptionsActive :: "string \<Rightarrow> string + http_Response"
  Unmarshal_TenantListProductsResponseBody ::
    "bytes \<Rightarrow> string + 'id TenantProduct slice ResponseBody"
  Unmarshal_TenantListEntitlementsResponseBody ::
    "bytes \<Rightarrow> string + 'id TenantEntitlement slice ResponseBody"
  Unmarshal_TenantActiveSubscriptionResponseBody ::
    "bytes \<Rightarrow> string + 'id StorableSubscription ResponseBody"

text \<open>\<^verbatim>\<open>result.Error != nil && *result.Error != ""\<close>\<close>

definition has_Error :: "'d ResponseBody \<Rightarrow> bool" where
  "has_Error result = (case Error result of None \<Rightarrow> False | Some e \<Rightarrow> e \<noteq> [])"

definition ListProducts :: "'id client \<Rightarrow> error + 'id TenantProduct slice" where
  "ListProducts c =
     (case GetTenantProducts c of
        Inl err \<Rightarrow> Inl (Passed err)
      | Inr resp \<Rightarrow>
          if StatusCode resp \<noteq> http_StatusOK
          then Inl (Errorf_d ''unexpected status code'' (StatusCode resp))
          else
            (case Body resp of
               Inl err \<Rightarrow> Inl (Passed err)
             | Inr body \<Rightarrow>
                 (case Unmarshal_TenantListProductsResponseBody c body of
                    Inl err \<Rightarrow> Inl (Passed err)
                  | Inr result \<Rightarrow>
                      if has_Error result then Inl (errors_New (the (Error result)))
                      else
                        (case Data result of
                           None \<Rightarrow> Inr (Slice [])
                         | Some data \<Rightarrow> Inr data))))"

definition ListEntitlements :: "'id client \<Rightarrow> string \<Rightarrow> error + 'id TenantEntitlement slice" where
  "ListEntitlements c environment =
     (case GetTenantEntitlementsByEnvironment c environment of
        Inl err \<Rightarrow> Inl (Passed err)
      | Inr resp \<Rightarrow>
          if StatusCode resp \<noteq> http_StatusOK
          then Inl (Errorf_d ''unexpected status code'' (StatusCode resp))
          else
            (case Body resp of
               Inl err \<Rightarrow> Inl (Passed err)
             | Inr body \<Rightarrow>
                 (case Unmarshal_TenantListEntitlementsResponseBody c body of
                    Inl err \<Rightarrow> Inl (Passed err)
                  | Inr result \<Rightarrow>
                      if has_Error result then Inl (errors_New (the (Error result)))
                      else
                        (case Data result of
                           None \<Rightarrow> Inr (Slice [])
                         | Some data \<Rightarrow> Inr data))))"

definition GetActiveSubscription ::
  "'id client \<Rightarrow> string \<Rightarrow> error + 'id StorableSubscription option" where
  "GetActiveSubscription c customerEmail =
     (case PostTenantSubscriptionsActive c customerEmail of
        Inl err \<Rightarrow> Inl (Passed err)
      | Inr resp \<Rightarrow>
          if StatusCode resp \<noteq> http_StatusOK
          then Inl (Errorf_d ''unexpected status code'' (StatusCode resp))
          else
            (case Body resp of
               Inl err \<Rightarrow> Inl (Passed err)
             | Inr respBody \<Rightarrow>
                 (case Unmarshal_TenantActiveSubscriptionResponseBody c respBody of
                    Inl err \<Rightarrow> Inl (Passed err)
                  | Inr result \<Rightarrow>
                      if has_Error result then Inl (errors_New (the (Error result)))
                      else Inr (Data result))))"

text \<open>The loop of \<^verbatim>\<open>GetActiveProduct\<close> (lines 160 to 166) over the products left.\<close>

fun range_products ::
  "'id TenantProduct list \<Rightarrow> 'id StorableSubscription \<Rightarrow> 'id TenantProduct option" where
  "range_products [] activeSubscription = None"
| "range_products (product # rest) activeSubscription =
     (if TenantProduct.ProductId product = StorableSubscription.ProductId activeSubscription
      then Some product
      else range_products rest activeSubscription)"

definition GetActiveProduct :: "'id client \<Rightarrow> string \<Rightarrow> error + 'id TenantProduct option" where
  "GetActiveProduct c customerEmail =
     (case GetActiveSubscription c customerEmail of
        Inl err \<Rightarrow> Inl err
      | Inr None \<Rightarrow> Inr None
      | Inr (Some activeSubscription) \<Rightarrow>
          (case ListProducts c of
             Inl err \<Rightarrow> Inl err
           | Inr products \<Rightarrow> Inr (range_products (elems products) activeSubscription)))"

text \<open>The loop of \<^verbatim>\<open>GetActiveEntitlement\<close> (lines 184 to 190).\<close>

fun range_entitlements ::
  "'id TenantEntitlement list \<Rightarrow> 'id TenantProduct \<Rightarrow> 'id TenantEntitlement option" where
  "range_entitlements [] activeProduct = None"
| "range_entitlements (entitlement # rest) activeProduct =
     (if Id' entitlement = EntitlementId activeProduct
      then Some entitlement
      else range_entitlements rest activeProduct)"

definition GetActiveEntitlement ::
  "'id client \<Rightarrow> string \<Rightarrow> string \<Rightarrow> error + 'id TenantEntitlement option" where
  "GetActiveEntitlement c customerEmail environment =
     (case GetActiveProduct c customerEmail of
        Inl err \<Rightarrow> Inl err
      | Inr None \<Rightarrow> Inr None
      | Inr (Some activeProduct) \<Rightarrow>
          (case ListEntitlements c environment of
             Inl err \<Rightarrow> Inl err
           | Inr entitlements \<Rightarrow>
               Inr (range_entitlements (elems entitlements) activeProduct)))"

text \<open>
  The join as the specification words it: the active subscription, then the first listed
  product whose identifier is the subscription's product reference, then the first listed
  entitlement whose identifier is that product's entitlement reference.
\<close>

definition three_step_join ::
  "'id client \<Rightarrow> string \<Rightarrow> string \<Rightarrow> error + 'id TenantEntitlement option" where
  "three_step_join c customerEmail environment =
     (case GetActiveSubscription c customerEmail of
        Inl err \<Rightarrow> Inl err
      | Inr None \<Rightarrow> Inr None
      | Inr (Some subscription) \<Rightarrow>
          (case ListProducts c of
             Inl err \<Rightarrow> Inl err
           | Inr products \<Rightarrow>
               (case find (\<lambda>p. TenantProduct.ProductId p
                                = StorableSubscription.ProductId subscription)
                       (elems products) of
                  None \<Rightarrow> Inr None
                | Some product \<Rightarrow>
                    (case ListEntitlements c environment of
                       Inl err \<Rightarrow> Inl err
                     | Inr entitlements \<Rightarrow>
                         Inr (find (\<lambda>e. Id' e = EntitlementId product)
                                (elems entitlements))))))"

subsection \<open>An executable instance of the library\<close>

text \<open>
  The theorems below hold for every library.  To run the model on concrete inputs, this
  instance gives each parameter a small executable function: timestamps of the form
  \<^verbatim>\<open>YYYY-MM-DDTHH:MM:SSZ\<close>, standard base64, a single PEM block, the DER of a small RSA
  or an elliptic-curve key, and flat JSON objects.
\<close>

definition digit :: "char \<Rightarrow> nat option" where
  "digit c = (let n = (of_char c :: nat) in if 48 \<le> n \<and> n \<le> 57 then Some (n - 48) else None)"

fun number :: "nat \<Rightarrow> string \<Rightarrow> nat option" where
  "number acc [] = Some acc"
| "number acc (c # cs) = (case digit c of None \<Rightarrow> None | Some d \<Rightarrow> number (10 * acc + d) cs)"

definition days_in_month :: "nat \<Rightarrow> nat \<Rightarrow> nat" where
  "days_in_month y m =
     (if m = 2 then
        (if y mod 400 = 0 then 29 else if y mod 100 = 0 then 28 else if y mod 4 = 0 then 29 else 28)
      else if m = 4 \<or> m = 6 \<or> m = 9 \<or> m = 11 then 30 else 31)"

definition days_from_civil :: "int \<Rightarrow> int \<Rightarrow> int \<Rightarrow> int" where
  "days_from_civil y m d =
     (let y' = (if m \<le> 2 then y - 1 else y);
          era = y' div 400;
          yoe = y' - era * 400;
          doy = (153 * (if 2 < m then m - 3 else m + 9) + 2) div 5 + d - 1;
          doe = yoe * 365 + yoe div 4 - yoe div 100 + doy
      in era * 146097 + doe - 719468)"

definition demo_time_Parse :: "string \<Rightarrow> string + Time" where
  "demo_time_Parse s =
     (if length s = 20 \<and> s ! 4 = CHR ''-'' \<and> s ! 7 = CHR ''-'' \<and> s ! 10 = CHR ''T''
         \<and> s ! 13 = CHR '':'' \<and> s ! 16 = CHR '':'' \<and> s ! 19 = CHR ''Z''
      then
        (case (number 0 (take 4 s), number 0 (take 2 (drop 5 s)), number 0 (take 2 (drop 8 s)),
               number 0 (take 2 (drop 11 s)), number 0 (take 2 (drop 14 s)),
               number 0 (take 2 (drop 17 s))) of
           (Some y, Some m, Some d, Some hh, Some mm, Some ss) \<Rightarrow>
             if 1 \<le> m \<and> m \<le> 12 \<and> 1 \<le> d \<and> d \<le> days_in_month y m
                \<and> hh < 24 \<and> mm < 60 \<and> ss < 60
             then Inr ((days_from_civil (int y) (int m) (int d) * 86400
                        + int hh * 3600 + int mm * 60 + int ss) * 1000000000)
             else Inl ''parsing time: out of range''
         | _ \<Rightarrow> Inl ''parsing time: cannot parse'')
      else Inl ''parsing time: cannot parse'')"

text \<open>The standard base64 alphabet, four characters to three bytes, with padding.\<close>

definition b64_val :: "char \<Rightarrow> nat option" where
  "b64_val c =
     (let n = (of_char c :: nat) in
      if 65 \<le> n \<and> n \<le> 90 then Some (n - 65)
      else if 97 \<le> n \<and> n \<le> 122 then Some (n - 71)
      else if 48 \<le> n \<and> n \<le> 57 then Some (n + 4)
      else if n = 43 then Some 62
      else if n = 47 then Some 63
      else None)"

fun b64_quads :: "string \<Rightarrow> bytes option" where
  "b64_quads [] = Some []"
| "b64_quads (a # b # c # d # rest) =
     (case (b64_val a, b64_val b) of
        (Some x, Some y) \<Rightarrow>
          if c = CHR ''='' then
            (if d = CHR ''='' \<and> rest = [] then Some [char_of (x * 4 + y div 16)] else None)
          else
            (case b64_val c of
               None \<Rightarrow> None
             | Some z \<Rightarrow>
                 if d = CHR ''='' then
                   (if rest = []
                    then Some [char_of (x * 4 + y div 16), char_of (y mod 16 * 16 + z div 4)]
                    else None)
                 else
                   (case b64_val d of
                      None \<Rightarrow> None
                    | Some w \<Rightarrow>
                        (case b64_quads rest of
                           None \<Rightarrow> None
                         | Some bs \<Rightarrow>
                             Some (char_of (x * 4 + y div 16)
                                   # char_of (y mod 16 * 16 + z div 4)
                                   # char_of (z mod 4 * 64 + w) # bs))))
      | _ \<Rightarrow> None)"
| "b64_quads _ = None"

definition demo_base64_DecodeString :: "string \<Rightarrow> string + bytes" where
  "demo_base64_DecodeString s =
     (case b64_quads s of None \<Rightarrow> Inl ''illegal base64 data'' | Some bs \<Rightarrow> Inr bs)"

text \<open>A PEM block of type \<^verbatim>\<open>PUBLIC KEY\<close>: the two armour lines around a base64 body.\<close>

definition pem_begin :: string where
  "pem_begin = ''-----BEGIN PUBLIC KEY-----'' @ [CHR 0x0A]"

definition pem_end :: string where
  "pem_end = ''-----END PUBLIC KEY-----''"

definition demo_pem_Decode :: "bytes \<Rightarrow> pem_Block option" where
  "demo_pem_Decode s =
     (let s' = (if s \<noteq> [] \<and> last s = CHR 0x0A then butlast s else s) in
      if length pem_begin + length pem_end \<le> length s'
         \<and> take (length pem_begin) s' = pem_begin
         \<and> drop (length s' - length pem_end) s' = pem_end
      then
        (case b64_quads (filter (\<lambda>c. c \<noteq> CHR 0x0A)
                 (take (length s' - length pem_begin - length pem_end)
                    (drop (length pem_begin) s'))) of
           None \<Rightarrow> None
         | Some bs \<Rightarrow> Some \<lparr>Type = ''PUBLIC KEY'', Bytes = bs\<rparr>)
      else None)"

text \<open>
  The DER of a SubjectPublicKeyInfo with short lengths: the algorithm identifier of
  \<^verbatim>\<open>rsaEncryption\<close> before a modulus and an exponent, or that of an elliptic-curve key on
  P-256 before a point.
\<close>

definition os2ip :: "nat list \<Rightarrow> int" where
  "os2ip bs = foldl (\<lambda>a b. a * 256 + int b) 0 bs"

definition rsa_algid :: "nat list" where
  "rsa_algid = [0x30, 0x0D, 0x06, 0x09, 0x2A, 0x86, 0x48, 0x86, 0xF7, 0x0D, 0x01, 0x01, 0x01,
                0x05, 0x00]"

definition ec_algid :: "nat list" where
  "ec_algid = [0x30, 0x13, 0x06, 0x07, 0x2A, 0x86, 0x48, 0xCE, 0x3D, 0x02, 0x01,
               0x06, 0x08, 0x2A, 0x86, 0x48, 0xCE, 0x3D, 0x03, 0x01, 0x07]"

definition parse_rsa_key :: "nat list \<Rightarrow> string + PublicKey" where
  "parse_rsa_key bs =
     (case bs of
        t # l # z # s # l3 # ti # ln # rest \<Rightarrow>
          if t = 0x03 \<and> z = 0 \<and> s = 0x30 \<and> ti = 0x02 \<and> l = length rest + 5
             \<and> l3 = length rest + 2 \<and> ln \<le> length rest
          then
            (case drop ln rest of
               te # le # eb \<Rightarrow>
                 if te = 0x02 \<and> le = length eb
                 then Inr (RSA \<lparr>N = os2ip (take ln rest), E = os2ip eb\<rparr>)
                 else Inl ''x509: invalid RSA public key''
             | _ \<Rightarrow> Inl ''x509: invalid RSA public key'')
          else Inl ''x509: invalid RSA public key''
      | _ \<Rightarrow> Inl ''x509: invalid RSA public key'')"

definition parse_ec_key :: "nat list \<Rightarrow> string + PublicKey" where
  "parse_ec_key bs =
     (case bs of
        t # l # z # point \<Rightarrow>
          if t = 0x03 \<and> z = 0 \<and> l = length point + 1
          then Inr (ECDSA (map char_of point))
          else Inl ''x509: failed to unmarshal elliptic curve point''
      | _ \<Rightarrow> Inl ''x509: failed to unmarshal elliptic curve point'')"

definition demo_x509_ParsePKIXPublicKey :: "bytes \<Rightarrow> string + PublicKey" where
  "demo_x509_ParsePKIXPublicKey der =
     (case map of_char der of
        t # l # rest \<Rightarrow>
          if t = 0x30 \<and> l = length rest then
            (if take (length rsa_algid) rest = rsa_algid
             then parse_rsa_key (drop (length rsa_algid) rest)
             else if take (length ec_algid) rest = ec_algid
             then parse_ec_key (drop (length ec_algid) rest)
             else Inl ''x509: unknown public key algorithm'')
          else Inl ''asn1: structure error''
      | _ \<Rightarrow> Inl ''asn1: syntax error'')"

text \<open>
  A 12-bit checksum stands for the digest, and textbook RSA on it for the signature
  scheme: the instance shows the model running, it is not the cryptography of the library.
\<close>

definition demo_checksum :: "bytes \<Rightarrow> nat" where
  "demo_checksum m = foldl (\<lambda>h c. (h * 31 + of_char c) mod 3233) 7 m"

definition demo_Sum256 :: "bytes \<Rightarrow> bytes" where
  "demo_Sum256 m = (let h = demo_checksum m in [char_of (h div 256), char_of (h mod 256)])"

definition demo_rsa_VerifyPKCS1v15 ::
  "rsa_PublicKey \<Rightarrow> crypto_Hash \<Rightarrow> bytes \<Rightarrow> bytes \<Rightarrow> string option" where
  "demo_rsa_VerifyPKCS1v15 pub h hashed sig =
     (if h = SHA256 \<and> 0 < N pub \<and> 0 \<le> E pub
         \<and> os2ip (map of_char sig) < N pub
         \<and> os2ip (map of_char sig) ^ nat (E pub) mod N pub = os2ip (map of_char hashed)
      then None
      else Some ''crypto/rsa: verification error'')"

text \<open>A flat JSON object of string members, without white space or escapes.\<close>

fun scan_string :: "string \<Rightarrow> string \<Rightarrow> (string \<times> string) option" where
  "scan_string acc [] = None"
| "scan_string acc (c # cs) =
     (if c = CHR 0x22 then Some (rev acc, cs)
      else if c = CHR 0x5C then None
      else scan_string (c # acc) cs)"

fun members :: "nat \<Rightarrow> string \<Rightarrow> (string \<times> string) list option" where
  "members 0 s = None"
| "members (Suc n) s =
     (case s of
        q # r \<Rightarrow>
          if q = CHR 0x22 then
            (case scan_string [] r of
               Some (k, c1 # q1 # r1) \<Rightarrow>
                 if c1 = CHR '':'' \<and> q1 = CHR 0x22 then
                   (case scan_string [] r1 of
                      Some (v, c2 # r2) \<Rightarrow>
                        if c2 = CHR ''}'' \<and> r2 = [] then Some [(k, v)]
                        else if c2 = CHR '','' then
                          (case members n r2 of
                             None \<Rightarrow> None
                           | Some kvs \<Rightarrow> Some ((k, v) # kvs))
                        else None
                    | _ \<Rightarrow> None)
                 else None
             | _ \<Rightarrow> None)
          else None
      | _ \<Rightarrow> None)"

definition demo_json_Unmarshal :: "bytes \<Rightarrow> string + (string \<times> string) list" where
  "demo_json_Unmarshal s =
     (case s of
        c # r \<Rightarrow>
          if c = CHR ''{'' then
            (case members (length r) r of
               None \<Rightarrow> Inl ''invalid character''
             | Some kvs \<Rightarrow> Inr kvs)
          else Inl ''invalid character''
      | _ \<Rightarrow> Inl ''unexpected end of JSON input'')"

definition demo_lib :: "(string \<times> string) list stdlib" where
  "demo_lib =
     \<lparr>time_Parse = demo_time_Parse,
      base64_DecodeString = demo_base64_DecodeString,
      pem_Decode = demo_pem_Decode,
      x509_ParsePKIXPublicKey = demo_x509_ParsePKIXPublicKey,
      sha256_Sum256 = demo_Sum256,
      rsa_VerifyPKCS1v15 = demo_rsa_VerifyPKCS1v15,
      json_Unmarshal = demo_json_Unmarshal\<rparr>"

text \<open>
  The inputs of the examples: the scenario of the specification (the clock at
  \<^verbatim>\<open>2026-01-06T10:00:00Z\<close>), a 12-bit RSA key with its private exponent, and the public
  key of an elliptic-curve key pair.
\<close>

definition demo_now :: Time where
  "demo_now = 1767693600000000000"

definition demo_rsa_pem :: string where
  "demo_rsa_pem =
     ''-----BEGIN PUBLIC KEY-----'' @ [CHR 0x0A]
     @ ''MBswDQYJKoZIhvcNAQEBBQADCgAwBwICDKECARE='' @ [CHR 0x0A]
     @ ''-----END PUBLIC KEY-----'' @ [CHR 0x0A]"

definition demo_ec_pem :: string where
  "demo_ec_pem =
     ''-----BEGIN PUBLIC KEY-----'' @ [CHR 0x0A]
     @ ''MFkwEwYHKoZIzj0CAQYIKoZIzj0DAQcDQgAEaxfR8uEsQkf4vOblY6RA8ncDfYEt'' @ [CHR 0x0A]
     @ ''6zOg9KE5RdiYwpZP40Li/hp/m47n60p8D54WK84zV2sxXs7LtkBoN79R9Q=='' @ [CHR 0x0A]
     @ ''-----END PUBLIC KEY-----'' @ [CHR 0x0A]"

definition demo_payload :: bytes where
  \<open>demo_payload = ''{"email":"user@example.com","id":"123"}''\<close>

definition demo_rsa_der :: bytes where
  "demo_rsa_der = map char_of
     [0x30, 0x1B, 0x30, 0x0D, 0x06, 0x09, 0x2A, 0x86, 0x48, 0x86, 0xF7, 0x0D, 0x01, 0x01, 0x01,
      0x05, 0x00, 0x03, 0x0A, 0x00, 0x30, 0x07, 0x02, 0x02, 0x0C, 0xA1, 0x02, 0x01, 0x11 :: nat]"

definition demo_rsa_key :: rsa_PublicKey where
  "demo_rsa_key = \<lparr>N = 3233, E = 17\<rparr>"

text \<open>Modular exponentiation by repeated squaring, for signing with the private exponent.\<close>

function modpow :: "nat \<Rightarrow> nat \<Rightarrow> nat \<Rightarrow> nat" where
  "modpow b e m =
     (if e = 0 then 1 mod m
      else if even e then (modpow b (e div 2) m)\<^sup>2 mod m
      else b * (modpow b (e div 2) m)\<^sup>2 mod m)"
  by pat_completeness auto
termination
  by (relation "measure (\<lambda>(b, e, m). e)") auto

declare modpow.simps [simp del]

definition demo_sign :: "bytes \<Rightarrow> bytes" where
  "demo_sign m =
     (let s = modpow (demo_checksum m) 2753 3233
      in [char_of (s div 256), char_of (s mod 256)])"

definition demo_ec_point :: bytes where
  "demo_ec_point = map char_of
     [0x04, 0x6B, 0x17, 0xD1, 0xF2, 0xE1, 0x2C, 0x42, 0x47, 0xF8, 0xBC, 0xE6, 0xE5,
      0x63, 0xA4, 0x40, 0xF2, 0x77, 0x03, 0x7D, 0x81, 0x2D, 0xEB, 0x33, 0xA0, 0xF4,
      0xA1, 0x39, 0x45, 0xD8, 0x98, 0xC2, 0x96, 0x4F, 0xE3, 0x42, 0xE2, 0xFE, 0x1A,
      0x7F, 0x9B, 0x8E, 0xE7, 0xEB, 0x4A, 0x7C, 0x0F, 0x9E, 0x16, 0x2B, 0xCE, 0x33,
      0x57, 0x6B, 0x31, 0x5E, 0xCE, 0xCB, 0xB6, 0x40, 0x68, 0x37, 0xBF, 0x51, 0xF5 :: nat]"

definition demo_ec_der :: bytes where
  "demo_ec_der = map char_of
     [0x30, 0x59, 0x30, 0x13, 0x06, 0x07, 0x2A, 0x86, 0x48, 0xCE, 0x3D, 0x02, 0x01,
      0x06, 0x08, 0x2A, 0x86, 0x48, 0xCE, 0x3D, 0x03, 0x01, 0x07, 0x03, 0x42, 0x00 :: nat]
     @ demo_ec_point"

definition demo_rsa_block :: pem_Block where
  "demo_rsa_block = \<lparr>Type = ''PUBLIC KEY'', Bytes = demo_rsa_der\<rparr>"

definition demo_ec_block :: pem_Block where
  "demo_ec_block = \<lparr>Type = ''PUBLIC KEY'', Bytes = demo_ec_der\<rparr>"

definition demo_truncated_pem :: string where
  "demo_truncated_pem =
     ''-----BEGIN PUBLIC KEY-----'' @ [CHR 0x0A]
     @ ''MBswDQYJKoZIhvcNAQEBBQADCgAwBwICDKEC'' @ [CHR 0x0A]
     @ ''-----END PUBLIC KEY-----'' @ [CHR 0x0A]"

definition demo_truncated_block :: pem_Block where
  "demo_truncated_block = \<lparr>Type = ''PUBLIC KEY'', Bytes = take 27 demo_rsa_der\<rparr>"

definition demo_far_timestamp :: string where
  "demo_far_timestamp = ''2400-01-01T00:00:00Z''"

definition demo_far_time :: Time where
  "demo_far_time = 13569465600000000000"

definition demo_later_timestamp :: string where
  "demo_later_timestamp = ''2026-01-06T10:00:01Z''"

definition demo_timestamp :: string where
  "demo_timestamp = ''2026-01-06T10:00:00Z''"

definition demo_tampered_payload :: bytes where
  \<open>demo_tampered_payload = ''{"email":"user@example.com","id":"124"}''\<close>

definition demo_event :: "(string \<times> string) list" where
  "demo_event = [(''email'', ''user@example.com''), (''id'', ''123'')]"

text \<open>
  A remote that answers every request with status 200 and a body that decodes to the
  given envelope.
\<close>

definition canned ::
  "'id StorableSubscription ResponseBody \<Rightarrow> 'id TenantProduct slice ResponseBody
   \<Rightarrow> 'id TenantEntitlement slice ResponseBody \<Rightarrow> 'id client" where
  "canned s p e =
     \<lparr>GetTenantProducts = Inr \<lparr>StatusCode = 200, Body = Inr ''products''\<rparr>,
      GetTenantEntitlementsByEnvironment =
        (\<lambda>environment. Inr \<lparr>StatusCode = 200, Body = Inr ''entitlements''\<rparr>),
      PostTenantSubscriptionsActive =
        (\<lambda>customerEmail. Inr \<lparr>StatusCode = 200, Body = Inr ''subscription''\<rparr>),
      Unmarshal_TenantListProductsResponseBody = (\<lambda>body. Inr p),
      Unmarshal_TenantListEntitlementsResponseBody = (\<lambda>body. Inr e),
      Unmarshal_TenantActiveSubscriptionResponseBody = (\<lambda>body. Inr s)\<rparr>"

text \<open>
  The remote of the examples: products and entitlements are listed, and the active
  subscription of every customer is the given one (or none).
\<close>

definition demo_products :: "string TenantProduct list" where
  "demo_products =
     [\<lparr>ProductId = ''basic'', EntitlementId = ''e1''\<rparr>,
      \<lparr>ProductId = ''pro'', EntitlementId = ''e2''\<rparr>,
      \<lparr>ProductId = ''pro'', EntitlementId = ''e3''\<rparr>,
      \<lparr>ProductId = ''legacy'', EntitlementId = ''e9''\<rparr>]"

definition demo_entitlements :: "string TenantEntitlement list" where
  "demo_entitlements = [\<lparr>Id' = ''e3''\<rparr>, \<lparr>Id' = ''e1''\<rparr>, \<lparr>Id' = ''e2''\<rparr>]"

definition subscription_to :: "string \<Rightarrow> string StorableSubscription" where
  "subscription_to product = \<lparr>StorableSubscription.ProductId = product\<rparr>"

definition demo_client :: "string StorableSubscription option \<Rightarrow> string client" where
  "demo_client subscription =
     canned \<lparr>Data = subscription, Error = None\<rparr>
       \<lparr>Data = Some (Slice demo_products), Error = None\<rparr>
       \<lparr>Data = Some (Slice demo_entitlements), Error = None\<rparr>"

definition demo_response :: "string \<Rightarrow> http_Response" where
  "demo_response body = \<lparr>StatusCode = 200, Body = Inr body\<rparr>"

section \<open>Properties of \<^verbatim>\<open>ConstructWebhookEvent\<close>\<close>

subsection \<open>The stages\<close>

lemma data_to_verify_eq:
  "data_to_verify timestampHeader rawPayload = timestampHeader @ ''.'' @ rawPayload"
  by (simp add: data_to_verify_def)

text \<open>Once the key is loaded, the result is that of the verification and the decoding.\<close>

lemma ConstructWebhookEvent_at_verification:
  assumes "timestamp_ok L now timestampHeader"
    and "base64_DecodeString L signatureHeader = Inr signature"
    and "pem_Decode L webhookPublicKey = Some block"
    and "x509_ParsePKIXPublicKey L (Bytes block) = Inr (RSA rsaPub)"
  shows "ConstructWebhookEvent L now webhookPublicKey rawPayload signatureHeader timestampHeader =
     (case rsa_VerifyPKCS1v15 L rsaPub SHA256
             (sha256_Sum256 L (timestampHeader @ ''.'' @ rawPayload)) signature of
        Some err \<Rightarrow> Inl (errors_New ''signature verification failed'')
      | None \<Rightarrow>
          (case json_Unmarshal L rawPayload of
             Inl err \<Rightarrow> Inl (Errorf_w ''failed to parse webhook payload'' err)
           | Inr event \<Rightarrow> Inr event))"
  using assms
  by (simp add: ConstructWebhookEvent_def timestamp_ok_def data_to_verify_eq
      split: sum.splits)

lemma ConstructWebhookEvent_Inr_iff:
  "ConstructWebhookEvent L now k p s t = Inr event \<longleftrightarrow>
     timestamp_ok L now t \<and> signature_ok L k p s t \<and> json_Unmarshal L p = Inr event"
  by (auto simp: ConstructWebhookEvent_def timestamp_ok_def signature_ok_def data_to_verify_eq
      split: sum.splits option.splits PublicKey.splits)

text \<open>Unless both checks pass, the decoder has no part in the result.\<close>

lemma ConstructWebhookEvent_unverified:
  "timestamp_ok L now t \<and> signature_ok L k p s t
   \<or> ConstructWebhookEvent (L\<lparr>json_Unmarshal := u\<rparr>) now k p s t
       = ConstructWebhookEvent L now k p s t"
  by (cases "time_Parse L t"; cases "base64_DecodeString L s"; cases "pem_Decode L k")
     (simp_all add: ConstructWebhookEvent_def timestamp_ok_def signature_ok_def data_to_verify_eq
        split: sum.split PublicKey.split option.split)

subsection \<open>The window test in \<^verbatim>\<open>int64\<close>\<close>

lemma sint_of_int64:
  "- (2 ^ 63) \<le> d \<Longrightarrow> d < 2 ^ 63 \<Longrightarrow> sint (word_of_int d :: 64 word) = d"
  by (simp add: sint_sbintrunc' signed_take_bit_int_eq_self)

lemma sint_abs_timeDiff:
  "sint (abs_timeDiff now t) =
     (if 2 ^ 63 \<le> now - t then 2 ^ 63 - 1
      else if now - t \<le> - (2 ^ 63) then - (2 ^ 63)
      else \<bar>now - t\<bar>)"
proof -
  define d where "d = now - t"
  have min: "sint minDuration = - (2 ^ 63)" "sint (- minDuration) = - (2 ^ 63)"
    by (simp_all add: minDuration_def)
  have max: "sint maxDuration = 2 ^ 63 - 1"
    by (simp add: maxDuration_def)
  consider "2 ^ 63 \<le> d" | "d < - (2 ^ 63)" | "d = - (2 ^ 63)" | "- (2 ^ 63) < d" "d < 0"
    | "0 \<le> d" "d < 2 ^ 63"
    by linarith
  then have "sint (abs_timeDiff now t) =
     (if 2 ^ 63 \<le> d then 2 ^ 63 - 1 else if d \<le> - (2 ^ 63) then - (2 ^ 63) else \<bar>d\<bar>)"
  proof cases
    case 1
    then have "Time_Sub now t = maxDuration"
      by (simp add: Time_Sub_def d_def)
    with 1 max show ?thesis
      by (simp add: abs_timeDiff_def time_Since_def word_sless_alt)
  next
    case 2
    then have "Time_Sub now t = minDuration"
      by (simp add: Time_Sub_def d_def)
    with 2 min show ?thesis
      by (simp add: abs_timeDiff_def time_Since_def word_sless_alt)
  next
    case 3
    then have "Time_Sub now t = minDuration"
      by (simp add: Time_Sub_def d_def minDuration_def)
    with 3 min show ?thesis
      by (simp add: abs_timeDiff_def time_Since_def word_sless_alt)
  next
    case 4
    then have sub: "Time_Sub now t = word_of_int d"
      by (simp add: Time_Sub_def d_def)
    from 4 have "sint (word_of_int d :: 64 word) = d"
      by (intro sint_of_int64) simp_all
    moreover from 4 have "sint (word_of_int (- d) :: 64 word) = - d"
      by (intro sint_of_int64) simp_all
    ultimately show ?thesis using 4 sub
      by (simp add: abs_timeDiff_def time_Since_def word_sless_alt)
  next
    case 5
    then have sub: "Time_Sub now t = word_of_int d"
      by (simp add: Time_Sub_def d_def)
    from 5 have "sint (word_of_int d :: 64 word) = d"
      by (intro sint_of_int64) simp_all
    then show ?thesis using 5 sub
      by (simp add: abs_timeDiff_def time_Since_def word_sless_alt)
  qed
  then show ?thesis by (simp add: d_def)
qed

text \<open>
  The test of line 278 rejects exactly the timestamps more than five minutes from the
  clock, except those \<open>2\<^sup>6\<^sup>3\<close> nanoseconds or more ahead of it: there \<^verbatim>\<open>Sub\<close> gives the
  minimum duration, whose negation is itself.
\<close>

lemma window_test:
  "5 * Minute <s abs_timeDiff now t \<longleftrightarrow>
     300000000000 < \<bar>now - t\<bar> \<and> - (2 ^ 63) < now - t"
proof -
  have "sint (5 * Minute) = 300000000000"
    by (simp add: Minute_def)
  then show ?thesis
    by (simp add: word_sless_alt sint_abs_timeDiff)
qed

lemma timestamp_ok_within:
  assumes "time_Parse L timestampHeader = Inr timestampDate"
    and "\<bar>now - timestampDate\<bar> \<le> 300000000000"
  shows "timestamp_ok L now timestampHeader"
  using assms by (simp add: timestamp_ok_def window_test)

subsection \<open>The instance on the example inputs\<close>

lemma char_of_eq: "char_of (n::nat) = c \<longleftrightarrow> n mod 256 = of_char c"
  by (simp add: char_of_eq_iff take_bit_eq_mod)

lemma demo_time: "time_Parse demo_lib demo_timestamp = Inr demo_now"
  by (simp add: demo_lib_def demo_timestamp_def demo_now_def demo_time_Parse_def digit_def
      days_from_civil_def days_in_month_def)

lemma demo_timestamp_ok: "timestamp_ok demo_lib demo_now demo_timestamp"
  using demo_time by (rule timestamp_ok_within) simp

lemma demo_sign_msg:
  "demo_sign (demo_timestamp @ ''.'' @ demo_payload) = [CHR 0x01, CHR ''l'']"
  by (simp add: demo_sign_def demo_checksum_def demo_timestamp_def demo_payload_def char_of_eq
      modpow.simps)

lemma demo_b64: "base64_DecodeString demo_lib ''AWw='' = Inr [CHR 0x01, CHR ''l'']"
  by (simp add: demo_lib_def demo_base64_DecodeString_def b64_val_def char_of_eq)

lemma demo_pem: "pem_Decode demo_lib demo_rsa_pem = Some demo_rsa_block"
  by (simp add: demo_lib_def demo_pem_Decode_def demo_rsa_pem_def pem_begin_def pem_end_def
      b64_val_def demo_rsa_der_def demo_rsa_block_def)

lemma demo_x509:
  "x509_ParsePKIXPublicKey demo_lib (Bytes demo_rsa_block) = Inr (RSA demo_rsa_key)"
  by (simp add: demo_lib_def demo_x509_ParsePKIXPublicKey_def demo_rsa_der_def rsa_algid_def
      ec_algid_def parse_rsa_key_def os2ip_def demo_rsa_key_def demo_rsa_block_def)

lemma demo_verify:
  "rsa_VerifyPKCS1v15 demo_lib demo_rsa_key SHA256
     (sha256_Sum256 demo_lib (demo_timestamp @ ''.'' @ demo_payload)) [CHR 0x01, CHR ''l'']
   = None"
  by (simp add: demo_lib_def demo_rsa_VerifyPKCS1v15_def demo_Sum256_def demo_checksum_def
      demo_timestamp_def demo_payload_def demo_rsa_key_def os2ip_def)

lemma demo_verify_tampered_payload:
  "rsa_VerifyPKCS1v15 demo_lib demo_rsa_key SHA256
     (sha256_Sum256 demo_lib (demo_timestamp @ ''.'' @ demo_tampered_payload))
     [CHR 0x01, CHR ''l'']
   = Some ''crypto/rsa: verification error''"
  by (simp add: demo_lib_def demo_rsa_VerifyPKCS1v15_def demo_Sum256_def demo_checksum_def
      demo_timestamp_def demo_tampered_payload_def demo_rsa_key_def os2ip_def)

lemma demo_json: "json_Unmarshal demo_lib demo_payload = Inr demo_event"
  by (simp add: demo_lib_def demo_json_Unmarshal_def demo_payload_def demo_event_def)

lemma demo_signature_tampered:
  "\<not> signature_ok demo_lib demo_rsa_pem demo_tampered_payload ''AWw='' demo_timestamp"
  using demo_b64 demo_pem demo_x509 demo_verify_tampered_payload by (simp add: signature_ok_def)

subsection \<open>No event from unverified bytes\<close>

text \<open>
  Claim C1.  \<^verbatim>\<open>ConstructWebhookEvent\<close> returns an event only if the timestamp check and the
  signature check both passed on its input, and the event is then the decoding of the raw
  payload.  Decoding comes after verification: on an input that fails a check the result is
  the same whatever the decoder is, so nothing decoded from unverified bytes reaches the
  caller.
\<close>

theorem event_only_from_verified_bytes:
  "(ConstructWebhookEvent L now webhookPublicKey rawPayload signatureHeader timestampHeader
      = Inr event \<longrightarrow>
      timestamp_ok L now timestampHeader
      \<and> signature_ok L webhookPublicKey rawPayload signatureHeader timestampHeader
      \<and> json_Unmarshal L rawPayload = Inr event)
   \<and> (\<not> (timestamp_ok L now timestampHeader
           \<and> signature_ok L webhookPublicKey rawPayload signatureHeader timestampHeader) \<longrightarrow>
        ConstructWebhookEvent (L\<lparr>json_Unmarshal := decoder\<rparr>) now webhookPublicKey rawPayload
          signatureHeader timestampHeader
        = ConstructWebhookEvent L now webhookPublicKey rawPayload signatureHeader
            timestampHeader)"
  using ConstructWebhookEvent_Inr_iff
      [of L now webhookPublicKey rawPayload signatureHeader timestampHeader event]
    ConstructWebhookEvent_unverified
      [of L now timestampHeader webhookPublicKey rawPayload signatureHeader decoder]
  by blast

theorem event_only_from_verified_bytes_witness:
  "ConstructWebhookEvent demo_lib demo_now demo_rsa_pem demo_payload ''AWw'' demo_timestamp
     \<noteq> Inr demo_event
   \<and> ConstructWebhookEvent demo_lib demo_now demo_rsa_pem demo_payload ''AWw='' demo_timestamp
     = Inr demo_event
   \<and> timestamp_ok demo_lib demo_now demo_timestamp
   \<and> signature_ok demo_lib demo_rsa_pem demo_payload ''AWw='' demo_timestamp
   \<and> json_Unmarshal demo_lib demo_payload = Inr demo_event
   \<and> \<not> signature_ok demo_lib demo_rsa_pem demo_tampered_payload ''AWw='' demo_timestamp
   \<and> ConstructWebhookEvent (demo_lib\<lparr>json_Unmarshal := (\<lambda>b. Inr [])\<rparr>) demo_now demo_rsa_pem
        demo_tampered_payload ''AWw='' demo_timestamp
     = ConstructWebhookEvent demo_lib demo_now demo_rsa_pem demo_tampered_payload ''AWw=''
         demo_timestamp"
proof -
  have accepted:
    "ConstructWebhookEvent demo_lib demo_now demo_rsa_pem demo_payload ''AWw='' demo_timestamp
     = Inr demo_event"
    using demo_verify demo_json
    by (simp add: ConstructWebhookEvent_at_verification
        [OF demo_timestamp_ok demo_b64 demo_pem demo_x509])
  have "\<not> signature_ok demo_lib demo_rsa_pem demo_payload ''AWw'' demo_timestamp"
    by (simp add: signature_ok_def demo_lib_def demo_base64_DecodeString_def b64_val_def)
  then have rejected:
    "ConstructWebhookEvent demo_lib demo_now demo_rsa_pem demo_payload ''AWw'' demo_timestamp
     \<noteq> Inr demo_event"
    using event_only_from_verified_bytes
      [where L = demo_lib and now = demo_now and webhookPublicKey = demo_rsa_pem
        and rawPayload = demo_payload and signatureHeader = "''AWw''"
        and timestampHeader = demo_timestamp and event = demo_event]
    by blast
  from accepted rejected demo_signature_tampered show ?thesis
    using event_only_from_verified_bytes
      [where L = demo_lib and now = demo_now and webhookPublicKey = demo_rsa_pem
        and rawPayload = demo_payload and signatureHeader = "''AWw=''"
        and timestampHeader = demo_timestamp and event = demo_event]
      event_only_from_verified_bytes
      [where L = demo_lib and now = demo_now and webhookPublicKey = demo_rsa_pem
        and rawPayload = demo_tampered_payload and signatureHeader = "''AWw=''"
        and timestampHeader = demo_timestamp and event = demo_event
        and decoder = "\<lambda>b. Inr []"]
    by blast
qed

subsection \<open>Signing and accepting\<close>

text \<open>
  Claim C2, amended.  For a timestamp that parses to a time within five minutes of the
  clock, a key that loads as the RSA public key, a signature header that is the base64 of
  the signature over \<open>timestamp @ ''.'' @ payload\<close>, which verifies under that key, and a
  payload that decodes as an event: \<^verbatim>\<open>ConstructWebhookEvent\<close> returns the decoding of the raw
  payload.  (\<open>sign\<close> is the signing with the private key; what is asked of the key pair is
  that its signature over this message verifies.)
\<close>

theorem signed_fresh_event_accepted:
  assumes "time_Parse L timestampHeader = Inr timestampDate"
    and "\<bar>now - timestampDate\<bar> \<le> 300000000000"
    and "pem_Decode L webhookPublicKey = Some block"
    and "x509_ParsePKIXPublicKey L (Bytes block) = Inr (RSA rsaPub)"
    and "base64_DecodeString L signatureHeader
         = Inr (sign (timestampHeader @ ''.'' @ rawPayload))"
    and "rsa_VerifyPKCS1v15 L rsaPub SHA256
           (sha256_Sum256 L (timestampHeader @ ''.'' @ rawPayload))
           (sign (timestampHeader @ ''.'' @ rawPayload)) = None"
    and "json_Unmarshal L rawPayload = Inr event"
  shows "ConstructWebhookEvent L now webhookPublicKey rawPayload signatureHeader timestampHeader
         = Inr event"
proof -
  from assms(1,2) have "timestamp_ok L now timestampHeader"
    by (rule timestamp_ok_within)
  from ConstructWebhookEvent_at_verification [OF this assms(5) assms(3) assms(4)]
  show ?thesis using assms(6,7) by simp
qed

theorem signed_fresh_event_accepted_witness:
  "\<bar>demo_now - demo_now\<bar> \<le> 300000000000
   \<and> base64_DecodeString demo_lib ''AWw='' = Inr (demo_sign (demo_timestamp @ ''.'' @ demo_payload))
   \<and> ConstructWebhookEvent demo_lib demo_now demo_rsa_pem demo_payload ''AWw='' demo_timestamp
       = Inr demo_event"
proof -
  have sig: "base64_DecodeString demo_lib ''AWw=''
             = Inr (demo_sign (demo_timestamp @ ''.'' @ demo_payload))"
    using demo_b64 demo_sign_msg by simp
  have ver: "rsa_VerifyPKCS1v15 demo_lib demo_rsa_key SHA256
           (sha256_Sum256 demo_lib (demo_timestamp @ ''.'' @ demo_payload))
           (demo_sign (demo_timestamp @ ''.'' @ demo_payload)) = None"
    using demo_verify demo_sign_msg by simp
  have win: "\<bar>demo_now - demo_now\<bar> \<le> 300000000000"
    by simp
  from signed_fresh_event_accepted
    [where sign = demo_sign, OF demo_time win demo_pem demo_x509 sig ver demo_json] sig
  show ?thesis by simp
qed

text \<open>
  As stated, for any payload, the claim fails: a payload that is not JSON, signed and
  fresh, passes both checks and is rejected by the decoder.
\<close>

lemma demo_sign_not_json:
  "demo_sign (demo_timestamp @ ''.'' @ ''not json'') = [CHR 0x01, CHR 0xAA]"
  by (simp add: demo_sign_def demo_checksum_def demo_timestamp_def char_of_eq modpow.simps)

lemma demo_b64_not_json: "base64_DecodeString demo_lib ''Aao='' = Inr [CHR 0x01, CHR 0xAA]"
  by (simp add: demo_lib_def demo_base64_DecodeString_def b64_val_def char_of_eq)

lemma demo_verify_not_json:
  "rsa_VerifyPKCS1v15 demo_lib demo_rsa_key SHA256
     (sha256_Sum256 demo_lib (demo_timestamp @ ''.'' @ ''not json'')) [CHR 0x01, CHR 0xAA]
   = None"
  by (simp add: demo_lib_def demo_rsa_VerifyPKCS1v15_def demo_Sum256_def demo_checksum_def
      demo_timestamp_def demo_rsa_key_def os2ip_def)

lemma demo_json_bad: "json_Unmarshal demo_lib ''not json'' = Inl ''invalid character''"
  by (simp add: demo_lib_def demo_json_Unmarshal_def)

theorem signed_undecodable_payload_counterexample:
  "time_Parse demo_lib demo_timestamp = Inr demo_now
   \<and> \<bar>demo_now - demo_now\<bar> \<le> 300000000000
   \<and> pem_Decode demo_lib demo_rsa_pem = Some demo_rsa_block
   \<and> x509_ParsePKIXPublicKey demo_lib (Bytes demo_rsa_block) = Inr (RSA demo_rsa_key)
   \<and> base64_DecodeString demo_lib ''Aao=''
       = Inr (demo_sign (demo_timestamp @ ''.'' @ ''not json''))
   \<and> rsa_VerifyPKCS1v15 demo_lib demo_rsa_key SHA256
         (sha256_Sum256 demo_lib (demo_timestamp @ ''.'' @ ''not json''))
         (demo_sign (demo_timestamp @ ''.'' @ ''not json'')) = None
   \<and> ConstructWebhookEvent demo_lib demo_now demo_rsa_pem ''not json'' ''Aao='' demo_timestamp
       = Inl (Errorf_w ''failed to parse webhook payload'' ''invalid character'')"
proof -
  have "ConstructWebhookEvent demo_lib demo_now demo_rsa_pem ''not json'' ''Aao='' demo_timestamp
       = Inl (Errorf_w ''failed to parse webhook payload'' ''invalid character'')"
    using demo_verify_not_json demo_json_bad
    by (simp add: ConstructWebhookEvent_at_verification
        [OF demo_timestamp_ok demo_b64_not_json demo_pem demo_x509])
  then show ?thesis
    using demo_time demo_pem demo_x509 demo_b64_not_json demo_sign_not_json demo_verify_not_json
    by simp
qed

subsection \<open>The freshness window\<close>

lemma demo_time_far: "time_Parse demo_lib demo_far_timestamp = Inr demo_far_time"
  by (simp add: demo_lib_def demo_far_timestamp_def demo_far_time_def demo_time_Parse_def
      digit_def days_from_civil_def days_in_month_def)

lemma demo_b64_far: "base64_DecodeString demo_lib ''BVo='' = Inr [CHR 0x05, CHR ''Z'']"
  by (simp add: demo_lib_def demo_base64_DecodeString_def b64_val_def char_of_eq)

lemma demo_verify_far:
  "rsa_VerifyPKCS1v15 demo_lib demo_rsa_key SHA256
     (sha256_Sum256 demo_lib (demo_far_timestamp @ ''.'' @ demo_payload)) [CHR 0x05, CHR ''Z'']
   = None"
  by (simp add: demo_lib_def demo_rsa_VerifyPKCS1v15_def demo_Sum256_def demo_checksum_def
      demo_far_timestamp_def demo_payload_def demo_rsa_key_def os2ip_def)

text \<open>
  Claim C3 fails on the code.  A timestamp of the year 2400, 374 years ahead of the clock,
  passes the test of lines 274 to 280, and with a signature over it the event is returned.
\<close>

theorem far_future_timestamp_accepted:
  "time_Parse demo_lib demo_far_timestamp = Inr demo_far_time
   \<and> 300000000000 < \<bar>demo_now - demo_far_time\<bar>
   \<and> time_Since demo_now demo_far_time = minDuration
   \<and> abs_timeDiff demo_now demo_far_time = minDuration
   \<and> \<not> 5 * Minute <s abs_timeDiff demo_now demo_far_time
   \<and> ConstructWebhookEvent demo_lib demo_now demo_rsa_pem demo_payload ''BVo=''
         demo_far_timestamp = Inr demo_event"
proof -
  have since: "time_Since demo_now demo_far_time = minDuration"
    by (simp add: time_Since_def Time_Sub_def demo_now_def demo_far_time_def)
  have diff: "abs_timeDiff demo_now demo_far_time = minDuration"
    by (simp add: abs_timeDiff_def since) (simp add: minDuration_def)
  have test: "\<not> 5 * Minute <s abs_timeDiff demo_now demo_far_time"
    by (simp add: diff) (simp add: minDuration_def Minute_def)
  with demo_time_far have "timestamp_ok demo_lib demo_now demo_far_timestamp"
    by (simp add: timestamp_ok_def)
  from ConstructWebhookEvent_at_verification [OF this demo_b64_far demo_pem demo_x509]
  have "ConstructWebhookEvent demo_lib demo_now demo_rsa_pem demo_payload ''BVo=''
         demo_far_timestamp = Inr demo_event"
    using demo_verify_far demo_json by simp
  with demo_time_far since diff test show ?thesis
    by (simp add: demo_now_def demo_far_time_def)
qed

subsection \<open>The signed message\<close>

text \<open>
  Claim C4.  The data whose digest is verified is the bytes of the timestamp header, a
  full stop and the bytes of the raw payload: both inputs are in it unchanged, and on an
  input that reaches the verification the result is decided by the verification of the
  digest of exactly this concatenation.
\<close>

theorem signed_message_is_raw_concatenation:
  assumes "timestamp_ok L now timestampHeader"
    and "base64_DecodeString L signatureHeader = Inr signature"
    and "pem_Decode L webhookPublicKey = Some block"
    and "x509_ParsePKIXPublicKey L (Bytes block) = Inr (RSA rsaPub)"
  shows "data_to_verify timestampHeader rawPayload = timestampHeader @ ''.'' @ rawPayload
     \<and> take (length timestampHeader) (data_to_verify timestampHeader rawPayload)
         = timestampHeader
     \<and> drop (length timestampHeader + 1) (data_to_verify timestampHeader rawPayload)
         = rawPayload
     \<and> ConstructWebhookEvent L now webhookPublicKey rawPayload signatureHeader timestampHeader
         = (case rsa_VerifyPKCS1v15 L rsaPub SHA256
                   (sha256_Sum256 L (timestampHeader @ ''.'' @ rawPayload)) signature of
              Some err \<Rightarrow> Inl (errors_New ''signature verification failed'')
            | None \<Rightarrow>
                (case json_Unmarshal L rawPayload of
                   Inl err \<Rightarrow> Inl (Errorf_w ''failed to parse webhook payload'' err)
                 | Inr event \<Rightarrow> Inr event))"
  using ConstructWebhookEvent_at_verification [OF assms]
  by (simp add: data_to_verify_eq)

theorem signed_message_is_raw_concatenation_witness:
  \<open>data_to_verify demo_timestamp demo_payload
     = ''2026-01-06T10:00:00Z.{"email":"user@example.com","id":"123"}''
   \<and> timestamp_ok demo_lib demo_now demo_timestamp
   \<and> ConstructWebhookEvent demo_lib demo_now demo_rsa_pem demo_payload ''AWw='' demo_timestamp
       = (case rsa_VerifyPKCS1v15 demo_lib demo_rsa_key SHA256
                 (sha256_Sum256 demo_lib (demo_timestamp @ ''.'' @ demo_payload))
                 [CHR 0x01, CHR ''l''] of
            Some err \<Rightarrow> Inl (errors_New ''signature verification failed'')
          | None \<Rightarrow> Inr demo_event)\<close>
proof -
  note at_demo = signed_message_is_raw_concatenation
      [OF demo_timestamp_ok demo_b64 demo_pem demo_x509, of demo_payload]
  from at_demo [THEN conjunct1]
  have data: \<open>data_to_verify demo_timestamp demo_payload
     = ''2026-01-06T10:00:00Z.{"email":"user@example.com","id":"123"}''\<close>
    by (simp add: demo_timestamp_def demo_payload_def)
  from at_demo [THEN conjunct2, THEN conjunct2, THEN conjunct2]
  have result:
    "ConstructWebhookEvent demo_lib demo_now demo_rsa_pem demo_payload ''AWw='' demo_timestamp
       = (case rsa_VerifyPKCS1v15 demo_lib demo_rsa_key SHA256
                 (sha256_Sum256 demo_lib (demo_timestamp @ ''.'' @ demo_payload))
                 [CHR 0x01, CHR ''l''] of
            Some err \<Rightarrow> Inl (errors_New ''signature verification failed'')
          | None \<Rightarrow> Inr demo_event)"
    by (simp add: demo_json split: option.split)
  from data demo_timestamp_ok result show ?thesis
    by (intro conjI)
qed

subsection \<open>Verification failures\<close>

lemma demo_b64_flipped: "base64_DecodeString demo_lib ''AW0='' = Inr [CHR 0x01, CHR ''m'']"
  by (simp add: demo_lib_def demo_base64_DecodeString_def b64_val_def char_of_eq)

lemma demo_verify_flipped_signature:
  "rsa_VerifyPKCS1v15 demo_lib demo_rsa_key SHA256
     (sha256_Sum256 demo_lib (demo_timestamp @ ''.'' @ demo_payload)) [CHR 0x01, CHR ''m'']
   = Some ''crypto/rsa: verification error''"
  by (simp add: demo_lib_def demo_rsa_VerifyPKCS1v15_def demo_Sum256_def demo_checksum_def
      demo_timestamp_def demo_payload_def demo_rsa_key_def os2ip_def)

lemma demo_time_later: "time_Parse demo_lib demo_later_timestamp = Inr (demo_now + 1000000000)"
  by (simp add: demo_lib_def demo_later_timestamp_def demo_now_def demo_time_Parse_def digit_def
      days_from_civil_def days_in_month_def)

lemma demo_later_timestamp_ok: "timestamp_ok demo_lib demo_now demo_later_timestamp"
  using demo_time_later by (rule timestamp_ok_within) simp

lemma demo_verify_flipped_timestamp:
  "rsa_VerifyPKCS1v15 demo_lib demo_rsa_key SHA256
     (sha256_Sum256 demo_lib (demo_later_timestamp @ ''.'' @ demo_payload))
     [CHR 0x01, CHR ''l'']
   = Some ''crypto/rsa: verification error''"
  by (simp add: demo_lib_def demo_rsa_VerifyPKCS1v15_def demo_Sum256_def demo_checksum_def
      demo_later_timestamp_def demo_payload_def demo_rsa_key_def os2ip_def)

text \<open>
  Claim C5.  On an input that reaches the verification (the timestamp check passed, the
  signature header decodes, the key is an RSA key), whenever the verification fails,
  whatever error it gives, \<^verbatim>\<open>ConstructWebhookEvent\<close> fails with the one error
  \<^verbatim>\<open>signature verification failed\<close>, of kind SignatureVerificationError.  The inputs are
  arbitrary, so this covers a payload, a signature or a timestamp changed after signing.
\<close>

theorem verification_failure_is_one_error:
  assumes "timestamp_ok L now timestampHeader"
    and "base64_DecodeString L signatureHeader = Inr signature"
    and "pem_Decode L webhookPublicKey = Some block"
    and "x509_ParsePKIXPublicKey L (Bytes block) = Inr (RSA rsaPub)"
    and "rsa_VerifyPKCS1v15 L rsaPub SHA256
           (sha256_Sum256 L (timestampHeader @ ''.'' @ rawPayload)) signature = Some err"
  shows "ConstructWebhookEvent L now webhookPublicKey rawPayload signatureHeader timestampHeader
           = Inl (errors_New ''signature verification failed'')
     \<and> kind_of (errors_New ''signature verification failed'') = Some SignatureVerificationError"
  using ConstructWebhookEvent_at_verification [OF assms(1-4), of rawPayload] assms(5)
  by simp

theorem verification_failure_is_one_error_witness:
  "ConstructWebhookEvent demo_lib demo_now demo_rsa_pem demo_tampered_payload ''AWw=''
       demo_timestamp = Inl (errors_New ''signature verification failed'')
   \<and> ConstructWebhookEvent demo_lib demo_now demo_rsa_pem demo_payload ''AW0=''
       demo_timestamp = Inl (errors_New ''signature verification failed'')
   \<and> ConstructWebhookEvent demo_lib demo_now demo_rsa_pem demo_payload ''AWw=''
       demo_later_timestamp = Inl (errors_New ''signature verification failed'')"
  using
    verification_failure_is_one_error
      [OF demo_timestamp_ok demo_b64 demo_pem demo_x509 demo_verify_tampered_payload]
    verification_failure_is_one_error
      [OF demo_timestamp_ok demo_b64_flipped demo_pem demo_x509 demo_verify_flipped_signature]
    verification_failure_is_one_error
      [OF demo_later_timestamp_ok demo_b64 demo_pem demo_x509 demo_verify_flipped_timestamp]
  by simp

subsection \<open>Loading the key\<close>

text \<open>Until an RSA key is loaded, the digest and the verification have no part in the result.\<close>

lemma ConstructWebhookEvent_before_verification:
  assumes "\<And>block rsaPub. pem_Decode L webhookPublicKey = Some block \<Longrightarrow>
             x509_ParsePKIXPublicKey L (Bytes block) \<noteq> Inr (RSA rsaPub)"
  shows "ConstructWebhookEvent (L\<lparr>sha256_Sum256 := h, rsa_VerifyPKCS1v15 := v\<rparr>) now
           webhookPublicKey rawPayload signatureHeader timestampHeader
         = ConstructWebhookEvent L now webhookPublicKey rawPayload signatureHeader timestampHeader"
  using assms
  by (cases "time_Parse L timestampHeader"; cases "base64_DecodeString L signatureHeader";
      cases "pem_Decode L webhookPublicKey")
     (auto simp add: ConstructWebhookEvent_def split: sum.split PublicKey.split)

lemma demo_pem_ec: "pem_Decode demo_lib demo_ec_pem = Some demo_ec_block"
  by (simp add: demo_lib_def demo_pem_Decode_def demo_ec_pem_def pem_begin_def pem_end_def
      b64_val_def demo_ec_der_def demo_ec_point_def demo_ec_block_def)

lemma demo_x509_ec:
  "x509_ParsePKIXPublicKey demo_lib (Bytes demo_ec_block) = Inr (ECDSA demo_ec_point)"
  by (simp add: demo_lib_def demo_x509_ParsePKIXPublicKey_def demo_ec_der_def rsa_algid_def
      ec_algid_def parse_ec_key_def demo_ec_point_def demo_ec_block_def)

lemma demo_b64_bad: "base64_DecodeString demo_lib ''###'' = Inl ''illegal base64 data''"
  by (simp add: demo_lib_def demo_base64_DecodeString_def b64_val_def)

text \<open>
  Claim C6, amended.  Given a timestamp that passes the timestamp check and a signature
  header that decodes, a key that is PEM-decodable and PKIX-parseable but not an RSA key
  makes \<^verbatim>\<open>ConstructWebhookEvent\<close> fail with \<^verbatim>\<open>public key is not RSA\<close>, of kind
  UnsupportedKeyTypeError and not PublicKeyParseError, for every payload and every decoded
  signature; the result is the same whatever the digest and the RSA verification are, so
  no verification is attempted on that key.
\<close>

theorem non_rsa_key_is_unsupported:
  assumes "timestamp_ok L now timestampHeader"
    and "base64_DecodeString L signatureHeader = Inr signature"
    and "pem_Decode L webhookPublicKey = Some block"
    and "x509_ParsePKIXPublicKey L (Bytes block) = Inr pub"
    and "\<forall>rsaPub. pub \<noteq> RSA rsaPub"
  shows "ConstructWebhookEvent L now webhookPublicKey rawPayload signatureHeader timestampHeader
           = Inl (errors_New ''public key is not RSA'')
     \<and> kind_of (errors_New ''public key is not RSA'') = Some UnsupportedKeyTypeError
     \<and> kind_of (errors_New ''public key is not RSA'') \<noteq> Some PublicKeyParseError
     \<and> ConstructWebhookEvent (L\<lparr>sha256_Sum256 := h, rsa_VerifyPKCS1v15 := v\<rparr>) now
           webhookPublicKey rawPayload signatureHeader timestampHeader
         = ConstructWebhookEvent L now webhookPublicKey rawPayload signatureHeader timestampHeader"
proof -
  have "ConstructWebhookEvent L now webhookPublicKey rawPayload signatureHeader timestampHeader
           = Inl (errors_New ''public key is not RSA'')"
    using assms
    by (cases pub) (auto simp add: ConstructWebhookEvent_def timestamp_ok_def split: sum.splits)
  moreover have "ConstructWebhookEvent (L\<lparr>sha256_Sum256 := h, rsa_VerifyPKCS1v15 := v\<rparr>) now
           webhookPublicKey rawPayload signatureHeader timestampHeader
         = ConstructWebhookEvent L now webhookPublicKey rawPayload signatureHeader timestampHeader"
    using assms(3-5) by (intro ConstructWebhookEvent_before_verification) auto
  ultimately show ?thesis by simp
qed

theorem non_rsa_key_is_unsupported_witness:
  "timestamp_ok demo_lib demo_now demo_timestamp
   \<and> x509_ParsePKIXPublicKey demo_lib (Bytes demo_ec_block) = Inr (ECDSA demo_ec_point)
   \<and> ConstructWebhookEvent demo_lib demo_now demo_ec_pem demo_payload ''AWw='' demo_timestamp
       = Inl (errors_New ''public key is not RSA'')
   \<and> ConstructWebhookEvent
         (demo_lib\<lparr>sha256_Sum256 := (\<lambda>m. []), rsa_VerifyPKCS1v15 := (\<lambda>k a d s. None)\<rparr>)
         demo_now demo_ec_pem demo_payload ''AWw='' demo_timestamp
       = Inl (errors_New ''public key is not RSA'')"
proof -
  have other: "\<forall>rsaPub. ECDSA demo_ec_point \<noteq> RSA rsaPub"
    by simp
  from non_rsa_key_is_unsupported
    [OF demo_timestamp_ok demo_b64 demo_pem_ec demo_x509_ec other,
      where rawPayload = demo_payload and h = "\<lambda>m. []" and v = "\<lambda>k a d s. None"]
    demo_timestamp_ok demo_x509_ec
  show ?thesis by simp
qed

text \<open>
  As stated, for every signature, the claim fails: the signature header is decoded before
  the key is looked at, so with a header that is not base64 the elliptic-curve key of the
  example is never reached and the error is the one of the decoding.
\<close>

theorem non_rsa_key_undecodable_signature_counterexample:
  "pem_Decode demo_lib demo_ec_pem = Some demo_ec_block
   \<and> x509_ParsePKIXPublicKey demo_lib (Bytes demo_ec_block) = Inr (ECDSA demo_ec_point)
   \<and> ConstructWebhookEvent demo_lib demo_now demo_ec_pem demo_payload ''###'' demo_timestamp
       = Inl (Errorf_w ''failed to decode signature'' ''illegal base64 data'')
   \<and> kind_of (Errorf_w ''failed to decode signature'' ''illegal base64 data'')
       = Some SignatureDecodeError"
proof -
  have "ConstructWebhookEvent demo_lib demo_now demo_ec_pem demo_payload ''###'' demo_timestamp
       = Inl (Errorf_w ''failed to decode signature'' ''illegal base64 data'')"
    using demo_timestamp_ok demo_b64_bad
    by (auto simp add: ConstructWebhookEvent_def timestamp_ok_def split: sum.splits)
  with demo_pem_ec demo_x509_ec show ?thesis by simp
qed

lemma demo_pem_bad: "pem_Decode demo_lib ''not a key'' = None"
  by (simp add: demo_lib_def demo_pem_Decode_def pem_begin_def pem_end_def)

lemma demo_pem_truncated: "pem_Decode demo_lib demo_truncated_pem = Some demo_truncated_block"
  by (simp add: demo_lib_def demo_pem_Decode_def demo_truncated_pem_def pem_begin_def
      pem_end_def b64_val_def demo_rsa_der_def demo_truncated_block_def)

lemma demo_x509_truncated:
  "x509_ParsePKIXPublicKey demo_lib (Bytes demo_truncated_block) = Inl ''asn1: structure error''"
  by (simp add: demo_lib_def demo_x509_ParsePKIXPublicKey_def demo_rsa_der_def
      demo_truncated_block_def)

text \<open>
  Claim C7.  Given a timestamp that passes the timestamp check and a signature header that
  decodes: a key string in which no PEM block is found, or whose block does not parse as
  a public key, makes \<^verbatim>\<open>ConstructWebhookEvent\<close> fail with an error of kind
  PublicKeyParseError, for every payload and signature; the result is the same whatever
  the digest and the verification are, so no cryptographic comparison comes before it.
\<close>

theorem unparseable_key_is_rejected_first:
  assumes "timestamp_ok L now timestampHeader"
    and "base64_DecodeString L signatureHeader = Inr signature"
    and "pem_Decode L webhookPublicKey = None
         \<or> (\<exists>block err. pem_Decode L webhookPublicKey = Some block
                \<and> x509_ParsePKIXPublicKey L (Bytes block) = Inl err)"
  shows "(\<exists>e. ConstructWebhookEvent L now webhookPublicKey rawPayload signatureHeader
                timestampHeader = Inl e
             \<and> kind_of e = Some PublicKeyParseError)
     \<and> ConstructWebhookEvent (L\<lparr>sha256_Sum256 := h, rsa_VerifyPKCS1v15 := v\<rparr>) now
           webhookPublicKey rawPayload signatureHeader timestampHeader
         = ConstructWebhookEvent L now webhookPublicKey rawPayload signatureHeader timestampHeader"
proof -
  have "\<exists>e. ConstructWebhookEvent L now webhookPublicKey rawPayload signatureHeader
                timestampHeader = Inl e
             \<and> kind_of e = Some PublicKeyParseError"
    using assms
    by (auto simp add: ConstructWebhookEvent_def timestamp_ok_def split: sum.splits)
  moreover have "ConstructWebhookEvent (L\<lparr>sha256_Sum256 := h, rsa_VerifyPKCS1v15 := v\<rparr>) now
           webhookPublicKey rawPayload signatureHeader timestampHeader
         = ConstructWebhookEvent L now webhookPublicKey rawPayload signatureHeader timestampHeader"
    using assms(3) by (intro ConstructWebhookEvent_before_verification) auto
  ultimately show ?thesis by simp
qed

theorem unparseable_key_is_rejected_first_witness:
  "ConstructWebhookEvent demo_lib demo_now ''not a key'' demo_payload ''AWw='' demo_timestamp
     = Inl (errors_New ''failed to parse PEM block containing the public key'')
   \<and> ConstructWebhookEvent demo_lib demo_now demo_truncated_pem demo_payload ''AWw=''
       demo_timestamp
     = Inl (Errorf_w ''failed to parse public key'' ''asn1: structure error'')
   \<and> ConstructWebhookEvent
       (demo_lib\<lparr>sha256_Sum256 := (\<lambda>m. []), rsa_VerifyPKCS1v15 := (\<lambda>k a d s. None)\<rparr>)
       demo_now demo_truncated_pem demo_payload ''AWw='' demo_timestamp
     = Inl (Errorf_w ''failed to parse public key'' ''asn1: structure error'')"
proof -
  have no_block: "pem_Decode demo_lib ''not a key'' = None
         \<or> (\<exists>block err. pem_Decode demo_lib ''not a key'' = Some block
                \<and> x509_ParsePKIXPublicKey demo_lib (Bytes block) = Inl err)"
    using demo_pem_bad by simp
  have no_key: "pem_Decode demo_lib demo_truncated_pem = None
         \<or> (\<exists>block err. pem_Decode demo_lib demo_truncated_pem = Some block
                \<and> x509_ParsePKIXPublicKey demo_lib (Bytes block) = Inl err)"
    using demo_pem_truncated demo_x509_truncated by simp
  have first: "ConstructWebhookEvent demo_lib demo_now ''not a key'' demo_payload ''AWw=''
      demo_timestamp = Inl (errors_New ''failed to parse PEM block containing the public key'')"
    using demo_timestamp_ok demo_b64 demo_pem_bad
    by (auto simp add: ConstructWebhookEvent_def timestamp_ok_def split: sum.splits)
  have second: "ConstructWebhookEvent demo_lib demo_now demo_truncated_pem demo_payload ''AWw=''
       demo_timestamp = Inl (Errorf_w ''failed to parse public key'' ''asn1: structure error'')"
    using demo_timestamp_ok demo_b64 demo_pem_truncated demo_x509_truncated
    by (auto simp add: ConstructWebhookEvent_def timestamp_ok_def split: sum.splits)
  from unparseable_key_is_rejected_first
    [OF demo_timestamp_ok demo_b64 no_block,
      where rawPayload = demo_payload and h = "\<lambda>m. []" and v = "\<lambda>k a d s. None"]
    unparseable_key_is_rejected_first
    [OF demo_timestamp_ok demo_b64 no_key,
      where rawPayload = demo_payload and h = "\<lambda>m. []" and v = "\<lambda>k a d s. None"]
    first second
  show ?thesis by simp
qed

section \<open>Properties of the request/response layer\<close>

subsection \<open>The envelope of the list endpoints\<close>

lemma ListProducts_decoded:
  assumes "GetTenantProducts c = Inr resp"
    and "StatusCode resp = http_StatusOK"
    and "Body resp = Inr body"
    and "Unmarshal_TenantListProductsResponseBody c body = Inr result"
  shows "ListProducts c =
     (if has_Error result then Inl (errors_New (the (Error result)))
      else case Data result of None \<Rightarrow> Inr (Slice []) | Some data \<Rightarrow> Inr data)"
  using assms by (simp add: ListProducts_def)

lemma ListEntitlements_decoded:
  assumes "GetTenantEntitlementsByEnvironment c environment = Inr resp"
    and "StatusCode resp = http_StatusOK"
    and "Body resp = Inr body"
    and "Unmarshal_TenantListEntitlementsResponseBody c body = Inr result"
  shows "ListEntitlements c environment =
     (if has_Error result then Inl (errors_New (the (Error result)))
      else case Data result of None \<Rightarrow> Inr (Slice []) | Some data \<Rightarrow> Inr data)"
  using assms by (simp add: ListEntitlements_def)

lemma GetActiveSubscription_decoded:
  assumes "PostTenantSubscriptionsActive c customerEmail = Inr resp"
    and "StatusCode resp = http_StatusOK"
    and "Body resp = Inr respBody"
    and "Unmarshal_TenantActiveSubscriptionResponseBody c respBody = Inr result"
  shows "GetActiveSubscription c customerEmail =
     (if has_Error result then Inl (errors_New (the (Error result))) else Inr (Data result))"
  using assms by (simp add: GetActiveSubscription_def)

text \<open>
  Claim C8.  For a response of \<^verbatim>\<open>ListProducts\<close> or \<^verbatim>\<open>ListEntitlements\<close> that arrived with
  status 200 and decoded to an envelope: a non-empty error string in the envelope makes
  the call fail with that string as its error; no error (none, or the empty string) and no
  data make it return the empty slice, which is not \<^verbatim>\<open>nil\<close>, and no error.
\<close>

theorem list_endpoints_envelope:
  assumes "GetTenantProducts c = Inr presp"
    and "StatusCode presp = http_StatusOK"
    and "Body presp = Inr pbody"
    and "Unmarshal_TenantListProductsResponseBody c pbody = Inr presult"
    and "GetTenantEntitlementsByEnvironment c environment = Inr eresp"
    and "StatusCode eresp = http_StatusOK"
    and "Body eresp = Inr ebody"
    and "Unmarshal_TenantListEntitlementsResponseBody c ebody = Inr eresult"
  shows "(\<forall>e. Error presult = Some e \<and> e \<noteq> [] \<longrightarrow> ListProducts c = Inl (errors_New e))
     \<and> ((Error presult = None \<or> Error presult = Some []) \<and> Data presult = None \<longrightarrow>
          ListProducts c = Inr (Slice []) \<and> ListProducts c \<noteq> Inr nil_slice)
     \<and> (\<forall>e. Error eresult = Some e \<and> e \<noteq> [] \<longrightarrow>
          ListEntitlements c environment = Inl (errors_New e))
     \<and> ((Error eresult = None \<or> Error eresult = Some []) \<and> Data eresult = None \<longrightarrow>
          ListEntitlements c environment = Inr (Slice [])
          \<and> ListEntitlements c environment \<noteq> Inr nil_slice)"
  using ListProducts_decoded [OF assms(1-4)] ListEntitlements_decoded [OF assms(5-8)]
  by (auto simp add: has_Error_def)

theorem list_endpoints_envelope_witness:
  "ListProducts (canned \<lparr>Data = None, Error = None\<rparr>
       \<lparr>Data = Some (Slice [\<lparr>ProductId = ''pro'', EntitlementId = ''e1''\<rparr>]), Error = Some ''boom''\<rparr>
       \<lparr>Data = None, Error = Some ''''\<rparr>)
     = Inl (errors_New ''boom'')
   \<and> ListEntitlements (canned \<lparr>Data = None, Error = None\<rparr>
       \<lparr>Data = Some (Slice [\<lparr>ProductId = ''pro'', EntitlementId = ''e1''\<rparr>]), Error = Some ''boom''\<rparr>
       \<lparr>Data = None, Error = Some ''''\<rparr>) ''production''
     = Inr (Slice [])
   \<and> ListProducts (canned \<lparr>Data = None, Error = None\<rparr>
       \<lparr>Data = None, Error = None\<rparr>
       \<lparr>Data = Some (Slice [\<lparr>Id' = ''e1''\<rparr>]), Error = Some ''denied''\<rparr>)
     = Inr (Slice [])
   \<and> ListEntitlements (canned \<lparr>Data = None, Error = None\<rparr>
       \<lparr>Data = None, Error = None\<rparr>
       \<lparr>Data = Some (Slice [\<lparr>Id' = ''e1''\<rparr>]), Error = Some ''denied''\<rparr>) ''production''
     = Inl (errors_New ''denied'')"
proof -
  let ?c1 = "canned \<lparr>Data = None, Error = None\<rparr>
       \<lparr>Data = Some (Slice [\<lparr>ProductId = ''pro'', EntitlementId = ''e1''\<rparr>]), Error = Some ''boom''\<rparr>
       \<lparr>Data = None, Error = Some ''''\<rparr>"
  let ?c2 = "canned \<lparr>Data = None, Error = None\<rparr>
       \<lparr>Data = None, Error = None\<rparr>
       \<lparr>Data = Some (Slice [\<lparr>Id' = ''e1''\<rparr>]), Error = Some ''denied''\<rparr>"
  have "ListProducts ?c1 = Inl (errors_New ''boom'')
      \<and> ListEntitlements ?c1 ''production'' = Inr (Slice [])"
    using list_endpoints_envelope [of ?c1 "\<lparr>StatusCode = 200, Body = Inr ''products''\<rparr>"
        "''products''" _ "''production''"
        "\<lparr>StatusCode = 200, Body = Inr ''entitlements''\<rparr>" "''entitlements''"]
    by (simp add: canned_def http_StatusOK_def)
  moreover have "ListProducts ?c2 = Inr (Slice [])
      \<and> ListEntitlements ?c2 ''production'' = Inl (errors_New ''denied'')"
    using list_endpoints_envelope [of ?c2 "\<lparr>StatusCode = 200, Body = Inr ''products''\<rparr>"
        "''products''" _ "''production''"
        "\<lparr>StatusCode = 200, Body = Inr ''entitlements''\<rparr>" "''entitlements''"]
    by (simp add: canned_def http_StatusOK_def)
  ultimately show ?thesis by simp
qed

subsection \<open>The join\<close>

lemma range_products_find:
  "range_products products activeSubscription =
     find (\<lambda>p. TenantProduct.ProductId p = StorableSubscription.ProductId activeSubscription)
       products"
  by (induction products) simp_all

lemma range_entitlements_find:
  "range_entitlements entitlements activeProduct =
     find (\<lambda>e. Id' e = EntitlementId activeProduct) entitlements"
  by (induction entitlements) simp_all

text \<open>
  Claim C9.  \<^verbatim>\<open>GetActiveEntitlement\<close> is the three-step join: the active subscription, the
  first listed product whose identifier is the subscription's product reference, the first
  listed entitlement whose identifier is that product's entitlement reference; each of the
  two loops is one scan of the fetched list.
\<close>

theorem GetActiveEntitlement_is_join:
  "GetActiveEntitlement c customerEmail environment = three_step_join c customerEmail environment"
  by (simp add: GetActiveEntitlement_def GetActiveProduct_def three_step_join_def
      range_products_find range_entitlements_find
      split: sum.split option.split)

theorem GetActiveEntitlement_is_join_witness:
  "GetActiveEntitlement (demo_client (Some (subscription_to ''pro'')))
     ''user@example.com'' ''production''
   = Inr (Some \<lparr>Id' = ''e2''\<rparr>)"
  unfolding GetActiveEntitlement_is_join
  by (simp add: three_step_join_def GetActiveSubscription_def ListProducts_def
      ListEntitlements_def demo_client_def canned_def http_StatusOK_def has_Error_def
      demo_products_def demo_entitlements_def subscription_to_def)

subsection \<open>Absence is not an error\<close>

text \<open>
  Claim C10.  The single-result lookups return \<^verbatim>\<open>nil\<close> with a \<^verbatim>\<open>nil\<close> error when there is
  nothing to return: \<^verbatim>\<open>GetActiveSubscription\<close> when the envelope has no error and no data;
  \<^verbatim>\<open>GetActiveProduct\<close> and \<^verbatim>\<open>GetActiveEntitlement\<close> when there is no active subscription or
  no listed product has the subscription's product reference; \<^verbatim>\<open>GetActiveEntitlement\<close> when
  no listed entitlement has the product's entitlement reference.
\<close>

theorem absence_is_not_an_error:
  "(PostTenantSubscriptionsActive c customerEmail = Inr resp
      \<and> StatusCode resp = http_StatusOK \<and> Body resp = Inr respBody
      \<and> Unmarshal_TenantActiveSubscriptionResponseBody c respBody = Inr result
      \<and> \<not> has_Error result \<and> Data result = None
      \<longrightarrow> GetActiveSubscription c customerEmail = Inr None)
   \<and> (GetActiveSubscription c customerEmail = Inr None
      \<longrightarrow> GetActiveProduct c customerEmail = Inr None
          \<and> GetActiveEntitlement c customerEmail environment = Inr None)
   \<and> (GetActiveSubscription c customerEmail = Inr (Some activeSubscription)
      \<and> ListProducts c = Inr products
      \<and> (\<forall>product \<in> set (elems products).
            TenantProduct.ProductId product
            \<noteq> StorableSubscription.ProductId activeSubscription)
      \<longrightarrow> GetActiveProduct c customerEmail = Inr None
          \<and> GetActiveEntitlement c customerEmail environment = Inr None)
   \<and> (GetActiveProduct c customerEmail = Inr (Some activeProduct)
      \<and> ListEntitlements c environment = Inr entitlements
      \<and> (\<forall>entitlement \<in> set (elems entitlements).
            Id' entitlement \<noteq> EntitlementId activeProduct)
      \<longrightarrow> GetActiveEntitlement c customerEmail environment = Inr None)"
proof (intro conjI impI)
  assume "PostTenantSubscriptionsActive c customerEmail = Inr resp
      \<and> StatusCode resp = http_StatusOK \<and> Body resp = Inr respBody
      \<and> Unmarshal_TenantActiveSubscriptionResponseBody c respBody = Inr result
      \<and> \<not> has_Error result \<and> Data result = None"
  then show "GetActiveSubscription c customerEmail = Inr None"
    using GetActiveSubscription_decoded [of c customerEmail resp respBody result] by simp
next
  assume none: "GetActiveSubscription c customerEmail = Inr None"
  then show "GetActiveProduct c customerEmail = Inr None"
    by (simp add: GetActiveProduct_def)
  then show "GetActiveEntitlement c customerEmail environment = Inr None"
    by (simp add: GetActiveEntitlement_def)
next
  assume a: "GetActiveSubscription c customerEmail = Inr (Some activeSubscription)
      \<and> ListProducts c = Inr products
      \<and> (\<forall>product \<in> set (elems products).
            TenantProduct.ProductId product
            \<noteq> StorableSubscription.ProductId activeSubscription)"
  then have "range_products (elems products) activeSubscription = None"
    by (simp add: range_products_find find_None_iff)
  with a show "GetActiveProduct c customerEmail = Inr None"
    by (simp add: GetActiveProduct_def)
  then show "GetActiveEntitlement c customerEmail environment = Inr None"
    by (simp add: GetActiveEntitlement_def)
next
  assume a: "GetActiveProduct c customerEmail = Inr (Some activeProduct)
      \<and> ListEntitlements c environment = Inr entitlements
      \<and> (\<forall>entitlement \<in> set (elems entitlements).
            Id' entitlement \<noteq> EntitlementId activeProduct)"
  then have "range_entitlements (elems entitlements) activeProduct = None"
    by (simp add: range_entitlements_find find_None_iff)
  with a show "GetActiveEntitlement c customerEmail environment = Inr None"
    by (simp add: GetActiveEntitlement_def)
qed

lemma demo_GetActiveSubscription:
  "GetActiveSubscription (demo_client subscription) customerEmail = Inr subscription"
  by (simp add: GetActiveSubscription_def demo_client_def canned_def http_StatusOK_def
      has_Error_def)

lemma demo_ListProducts: "ListProducts (demo_client subscription) = Inr (Slice demo_products)"
  by (simp add: ListProducts_def demo_client_def canned_def http_StatusOK_def has_Error_def)

lemma demo_ListEntitlements:
  "ListEntitlements (demo_client subscription) environment = Inr (Slice demo_entitlements)"
  by (simp add: ListEntitlements_def demo_client_def canned_def http_StatusOK_def
      has_Error_def)

theorem absence_is_not_an_error_witness:
  "GetActiveSubscription (demo_client None) ''user@example.com'' = Inr None
   \<and> GetActiveProduct (demo_client None) ''user@example.com'' = Inr None
   \<and> GetActiveEntitlement (demo_client None) ''user@example.com'' ''production'' = Inr None
   \<and> GetActiveSubscription (demo_client (Some (subscription_to ''gone''))) ''user@example.com''
       = Inr (Some (subscription_to ''gone''))
   \<and> GetActiveProduct (demo_client (Some (subscription_to ''gone''))) ''user@example.com''
       = Inr None
   \<and> GetActiveEntitlement (demo_client (Some (subscription_to ''gone''))) ''user@example.com''
         ''production'' = Inr None
   \<and> GetActiveProduct (demo_client (Some (subscription_to ''legacy''))) ''user@example.com''
       = Inr (Some \<lparr>ProductId = ''legacy'', EntitlementId = ''e9''\<rparr>)
   \<and> GetActiveEntitlement (demo_client (Some (subscription_to ''legacy''))) ''user@example.com''
         ''production'' = Inr None"
proof -
  let ?mail = "''user@example.com''"
  let ?env = "''production''"
  let ?none = "demo_client None"
  let ?gone = "demo_client (Some (subscription_to ''gone''))"
  let ?legacy = "demo_client (Some (subscription_to ''legacy''))"
  let ?empty = "\<lparr>Data = None, Error = None\<rparr> :: string StorableSubscription ResponseBody"
  have "PostTenantSubscriptionsActive ?none ?mail = Inr (demo_response ''subscription'')
      \<and> StatusCode (demo_response ''subscription'') = http_StatusOK
      \<and> Body (demo_response ''subscription'') = Inr ''subscription''
      \<and> Unmarshal_TenantActiveSubscriptionResponseBody ?none ''subscription'' = Inr ?empty
      \<and> \<not> has_Error ?empty \<and> Data ?empty = None"
    by (simp add: demo_client_def canned_def demo_response_def http_StatusOK_def has_Error_def)
  from absence_is_not_an_error [THEN conjunct1, THEN mp, OF this]
  have no_subscription: "GetActiveSubscription ?none ?mail = Inr None" .
  from absence_is_not_an_error [THEN conjunct2, THEN conjunct1, THEN mp, OF this]
  have none_found: "GetActiveProduct ?none ?mail = Inr None
      \<and> GetActiveEntitlement ?none ?mail ?env = Inr None" .
  have subscribed: "GetActiveSubscription ?gone ?mail = Inr (Some (subscription_to ''gone''))"
    by (rule demo_GetActiveSubscription)
  then have "GetActiveSubscription ?gone ?mail = Inr (Some (subscription_to ''gone''))
      \<and> ListProducts ?gone = Inr (Slice demo_products)
      \<and> (\<forall>product \<in> set (elems (Slice demo_products)).
            TenantProduct.ProductId product
            \<noteq> StorableSubscription.ProductId (subscription_to ''gone''))"
    by (simp add: demo_ListProducts demo_products_def subscription_to_def)
  from absence_is_not_an_error [THEN conjunct2, THEN conjunct2, THEN conjunct1, THEN mp, OF this]
  have no_product: "GetActiveProduct ?gone ?mail = Inr None
      \<and> GetActiveEntitlement ?gone ?mail ?env = Inr None" .
  have product: "GetActiveProduct ?legacy ?mail
      = Inr (Some \<lparr>ProductId = ''legacy'', EntitlementId = ''e9''\<rparr>)"
    by (simp add: GetActiveProduct_def demo_GetActiveSubscription demo_ListProducts
        demo_products_def subscription_to_def)
  then have "GetActiveProduct ?legacy ?mail
        = Inr (Some \<lparr>ProductId = ''legacy'', EntitlementId = ''e9''\<rparr>)
      \<and> ListEntitlements ?legacy ?env = Inr (Slice demo_entitlements)
      \<and> (\<forall>entitlement \<in> set (elems (Slice demo_entitlements)).
            Id' entitlement \<noteq> EntitlementId \<lparr>ProductId = ''legacy'', EntitlementId = ''e9''\<rparr>)"
    by (simp add: demo_ListEntitlements demo_entitlements_def)
  from absence_is_not_an_error [THEN conjunct2, THEN conjunct2, THEN conjunct2, THEN mp, OF this]
  have no_entitlement: "GetActiveEntitlement ?legacy ?mail ?env = Inr None" .
  from no_subscription none_found subscribed no_product product no_entitlement
  show ?thesis by simp
qed

end
